theory Spec2Isabelle
  imports Complex_Main
begin

section \<open>JavaScript values held by the persona form\<close>

text \<open>
  The editor (\<^verbatim>\<open>web/src/app/admin/personas/PersonaEditor.tsx\<close>) keeps its draft in a
  Formik form. A JavaScript number is a finite value, \<^verbatim>\<open>NaN\<close> or an infinity; finite
  values are modelled by the rationals, which contain every finite double.
\<close>

datatype js_number = Finite rat | NaN | PosInfinity | NegInfinity

text \<open>
  The \<^verbatim>\<open>num_chunks\<close> field starts as \<^verbatim>\<open>existingPersona?.num_chunks ?? null\<close>
  (a number or \<^verbatim>\<open>null\<close>) and the field's change handler stores the typed text, a
  string, with \<^verbatim>\<open>setFieldValue\<close>.
\<close>

datatype js_value = JNull | JNum js_number | JStr string

text \<open>JavaScript truthiness: \<^verbatim>\<open>null\<close>, \<^verbatim>\<open>0\<close>, \<^verbatim>\<open>NaN\<close> and \<^verbatim>\<open>""\<close> are falsy.\<close>

fun truthy :: "js_value \<Rightarrow> bool" where
  "truthy JNull = False"
| "truthy (JNum n) = (n \<noteq> Finite 0 \<and> n \<noteq> NaN)"
| "truthy (JStr s) = (s \<noteq> [])"

text \<open>The operator \<^verbatim>\<open>a || b\<close>.\<close>

definition js_or :: "js_value \<Rightarrow> js_value \<Rightarrow> js_value" where
  "js_or a b = (if truthy a then a else b)"

text \<open>
  A property read on a starter-message entry gives a string or \<^verbatim>\<open>undefined\<close>. An entry
  of the \<^verbatim>\<open>starter_messages\<close> array is an object with the properties \<^verbatim>\<open>name\<close>,
  \<^verbatim>\<open>description\<close> and \<^verbatim>\<open>message\<close>, or a plain string (which has none of them).
\<close>

datatype js_field = Undefined | Str string

datatype starter_entry = EntryString string | EntryObject js_field js_field js_field

fun entry_name :: "starter_entry \<Rightarrow> js_field" where
  "entry_name (EntryString s) = Undefined"
| "entry_name (EntryObject n d m) = n"

fun entry_description :: "starter_entry \<Rightarrow> js_field" where
  "entry_description (EntryString s) = Undefined"
| "entry_description (EntryObject n d m) = d"

fun entry_message :: "starter_entry \<Rightarrow> js_field" where
  "entry_message (EntryString s) = Undefined"
| "entry_message (EntryObject n d m) = m"

section \<open>Arrays\<close>

text \<open>\<^verbatim>\<open>Array.prototype.indexOf\<close>: the first index holding the element, or \<^verbatim>\<open>-1\<close>.\<close>

fun indexOf :: "'a list \<Rightarrow> 'a \<Rightarrow> int" where
  "indexOf [] x = - 1"
| "indexOf (y # ys) x =
     (if y = x then 0
      else (let r = indexOf ys x in if r = - 1 then - 1 else r + 1))"

text \<open>
  \<^verbatim>\<open>copy.splice(index, 1)\<close>: a negative start counts from the end, a start beyond the
  length removes nothing.
\<close>

definition splice1 :: "int \<Rightarrow> 'a list \<Rightarrow> 'a list" where
  "splice1 i xs =
     (let len = int (length xs);
          start = (if i < 0 then max (len + i) 0 else min i len)
      in take (nat start) xs @ drop (nat start + 1) xs)"

text \<open>
  Formik's \<^verbatim>\<open>arrayHelpers.push(value)\<close> and \<^verbatim>\<open>arrayHelpers.remove(index)\<close> on the
  field's current array: \<^verbatim>\<open>push\<close> copies the array and appends, \<^verbatim>\<open>remove\<close> copies
  it and splices one element out.
\<close>

definition arrayHelpers_push :: "'a \<Rightarrow> 'a list \<Rightarrow> 'a list" where
  "arrayHelpers_push x xs = xs @ [x]"

definition arrayHelpers_remove :: "int \<Rightarrow> 'a list \<Rightarrow> 'a list" where
  "arrayHelpers_remove ind xs = splice1 ind xs"

text \<open>Formik's \<^verbatim>\<open>copyArrayLike\<close>: a field that is \<^verbatim>\<open>null\<close> counts as the empty array.\<close>

definition copyArrayLike :: "'a list option \<Rightarrow> 'a list" where
  "copyArrayLike a = (case a of None \<Rightarrow> [] | Some xs \<Rightarrow> xs)"

section \<open>The draft\<close>

text \<open>The form's values, with the fields of \<^verbatim>\<open>initialValues\<close>.\<close>

record form_values =
  name :: string
  description :: string
  system_prompt :: string
  task_prompt :: string
  disable_retrieval :: bool
  document_set_ids :: "int list"
  num_chunks :: js_value
  include_citations :: bool
  llm_relevance_filter :: bool
  llm_model_version_override :: "string option"
  starter_messages :: "starter_entry list option"

text \<open>
  The existing persona of update mode, with the fields the editor reads (the interface
  is declared in \<^verbatim>\<open>./interfaces\<close>).
\<close>

record prompt =
  prompt_id :: int
  prompt_system_prompt :: string
  prompt_task_prompt :: string
  prompt_include_citations :: bool

record document_set =
  document_set_id :: int
  document_set_name :: string

record persona =
  persona_id :: int
  persona_name :: string
  persona_description :: string
  prompts :: "prompt list"
  persona_num_chunks :: "js_number option"
  persona_document_sets :: "document_set list"
  persona_llm_relevance_filter :: bool
  persona_llm_model_version_override :: "string option"
  persona_starter_messages :: "starter_entry list option"

text \<open>\<^verbatim>\<open>existingPersona?.prompts[0] ?? null\<close>\<close>

definition existingPrompt :: "persona option \<Rightarrow> prompt option" where
  "existingPrompt existingPersona =
     (case existingPersona of
        None \<Rightarrow> None
      | Some p \<Rightarrow> (case prompts p of [] \<Rightarrow> None | q # _ \<Rightarrow> Some q))"

definition initialValues :: "persona option \<Rightarrow> form_values" where
  "initialValues existingPersona =
     \<lparr> name = (case existingPersona of None \<Rightarrow> [] | Some p \<Rightarrow> persona_name p),
       description = (case existingPersona of None \<Rightarrow> [] | Some p \<Rightarrow> persona_description p),
       system_prompt =
         (case existingPrompt existingPersona of None \<Rightarrow> [] | Some q \<Rightarrow> prompt_system_prompt q),
       task_prompt =
         (case existingPrompt existingPersona of None \<Rightarrow> [] | Some q \<Rightarrow> prompt_task_prompt q),
       disable_retrieval =
         ((case Option.bind existingPersona persona_num_chunks of
             None \<Rightarrow> Finite 10 | Some n \<Rightarrow> n) = Finite 0),
       document_set_ids =
         (case existingPersona of
            None \<Rightarrow> []
          | Some p \<Rightarrow> map document_set_id (persona_document_sets p)),
       num_chunks =
         (case Option.bind existingPersona persona_num_chunks of
            None \<Rightarrow> JNull | Some n \<Rightarrow> JNum n),
       include_citations =
         (case existingPrompt existingPersona of
            None \<Rightarrow> True | Some q \<Rightarrow> prompt_include_citations q),
       llm_relevance_filter =
         (case existingPersona of None \<Rightarrow> False | Some p \<Rightarrow> persona_llm_relevance_filter p),
       llm_model_version_override =
         Option.bind existingPersona persona_llm_model_version_override,
       starter_messages = Option.bind existingPersona persona_starter_messages \<rparr>"

section \<open>Document-set selection\<close>

text \<open>
  The click handler of one document-set chip: \<^verbatim>\<open>ind\<close> is the position of the chip's
  identifier in \<^verbatim>\<open>values.document_set_ids\<close>; a selected chip is removed at that
  position, an unselected one is pushed.
\<close>

definition document_set_onClick :: "int \<Rightarrow> form_values \<Rightarrow> form_values" where
  "document_set_onClick documentSetId v =
     (let ind = indexOf (document_set_ids v) documentSetId;
          isSelected = (ind \<noteq> - 1)
      in if isSelected
         then v\<lparr>document_set_ids := arrayHelpers_remove ind (document_set_ids v)\<rparr>
         else v\<lparr>document_set_ids := arrayHelpers_push documentSetId (document_set_ids v)\<rparr>)"

section \<open>Starter messages\<close>

text \<open>
  The ``Add New'' button runs \<^verbatim>\<open>arrayHelpers.push("")\<close> on \<^verbatim>\<open>starter_messages\<close>; the
  cross of a row runs \<^verbatim>\<open>arrayHelpers.remove(index)\<close>.
\<close>

definition add_new_onClick :: "form_values \<Rightarrow> form_values" where
  "add_new_onClick v =
     v\<lparr>starter_messages :=
         Some (arrayHelpers_push (EntryString []) (copyArrayLike (starter_messages v)))\<rparr>"

definition starter_remove_onClick :: "nat \<Rightarrow> form_values \<Rightarrow> form_values" where
  "starter_remove_onClick index v =
     v\<lparr>starter_messages :=
         Some (arrayHelpers_remove (int index) (copyArrayLike (starter_messages v)))\<rparr>"

section \<open>The chunk-count field\<close>

text \<open>The regular expression \<^verbatim>\<open>/^[0-9]+$/\<close>: one or more characters, each a decimal digit.\<close>

definition is_digit :: "char \<Rightarrow> bool" where
  "is_digit c = (c \<in> set ''0123456789'')"

definition digits_only :: "string \<Rightarrow> bool" where
  "digits_only s = (s \<noteq> [] \<and> list_all is_digit s)"

text \<open>
  The change handler of the field: the typed text is stored only when it is empty or
  passes the regular expression.
\<close>

definition num_chunks_onChange :: "string \<Rightarrow> form_values \<Rightarrow> form_values" where
  "num_chunks_onChange val v =
     (if val = [] \<or> digits_only val then v\<lparr>num_chunks := JStr val\<rparr> else v)"

section \<open>Validation\<close>

text \<open>
  The schema of the field is \<^verbatim>\<open>Yup.number().max(20).nullable()\<close>. Yup tests the value
  after its cast: \<^verbatim>\<open>undefined\<close> passes (the field is not required), \<^verbatim>\<open>null\<close> passes
  (\<^verbatim>\<open>nullable\<close>), \<^verbatim>\<open>NaN\<close> fails the type check of \<^verbatim>\<open>number\<close>, and any other number
  passes when it is at most 20. The schema has no \<^verbatim>\<open>min\<close> and no \<^verbatim>\<open>integer\<close> test.
\<close>

datatype yup_input = YUndefined | YNull | YNumber js_number

fun js_le_20 :: "js_number \<Rightarrow> bool" where
  "js_le_20 (Finite r) = (r \<le> 20)"
| "js_le_20 NaN = False"
| "js_le_20 PosInfinity = False"
| "js_le_20 NegInfinity = True"

fun num_chunks_schema :: "yup_input \<Rightarrow> bool" where
  "num_chunks_schema YUndefined = True"
| "num_chunks_schema YNull = True"
| "num_chunks_schema (YNumber n) = (n \<noteq> NaN \<and> js_le_20 n)"

section \<open>The editor's state\<close>

record popup_spec =
  popup_type :: string
  message :: string

text \<open>\<^verbatim>\<open>router.push(`/admin/personas?u=${Date.now()}`)\<close>, with the time read.\<close>

datatype route = AdminPersonas nat

text \<open>A call of a persistence collaborator, with its arguments.\<close>

datatype persona_call =
  CreatePersona (sent: form_values)
| UpdatePersona int "int option" (sent: form_values)

text \<open>
  The component's state: the form's values and \<^verbatim>\<open>isSubmitting\<close> flag, the two
  \<^verbatim>\<open>useState\<close> cells, the popup, and what the handlers did to the outside (the route
  pushed, the collaborator calls made).
\<close>

record editor_state =
  draft :: form_values
  finalPrompt :: "string option"
  finalPromptError :: string
  popup :: "popup_spec option"
  isSubmitting :: bool
  pushed :: "route option"
  calls :: "persona_call list"

text \<open>The final prompt as rendered: \<^verbatim>\<open>finalPrompt ? <pre>{finalPrompt}</pre> : "-"\<close>.\<close>

definition rendered_final_prompt :: "editor_state \<Rightarrow> string" where
  "rendered_final_prompt s =
     (case finalPrompt s of None \<Rightarrow> ''-'' | Some t \<Rightarrow> (if t \<noteq> [] then t else ''-''))"

subsection \<open>The cross-field test\<close>

text \<open>
  Formik hands Yup the values with every empty string replaced by \<^verbatim>\<open>undefined\<close>
  (\<^verbatim>\<open>prepareDataForValidation\<close>), so the test reads a string or \<^verbatim>\<open>undefined\<close>.
\<close>

definition prepareDataForValidation :: "string \<Rightarrow> string option" where
  "prepareDataForValidation s = (if s \<noteq> [] then Some s else None)"

text \<open>\<^verbatim>\<open>values.system_prompt ? values.system_prompt.length > 0 : false\<close>\<close>

definition promptSpecified :: "string option \<Rightarrow> bool" where
  "promptSpecified p =
     (case p of None \<Rightarrow> False | Some x \<Rightarrow> (if x \<noteq> [] then length x > 0 else False))"

text \<open>
  The test function of \<^verbatim>\<open>"system-prompt-or-task-prompt"\<close>. It returns \<^verbatim>\<open>true\<close> or runs
  off its end (\<^verbatim>\<open>undefined\<close>, here \<open>None\<close>), and sets \<^verbatim>\<open>finalPromptError\<close> on the way.
\<close>

definition prompt_test ::
  "string option \<Rightarrow> string option \<Rightarrow> editor_state \<Rightarrow> bool option \<times> editor_state" where
  "prompt_test systemPrompt taskPrompt s =
     (let systemPromptSpecified = promptSpecified systemPrompt;
          taskPromptSpecified = promptSpecified taskPrompt
      in if systemPromptSpecified \<or> taskPromptSpecified
         then (Some True, s\<lparr>finalPromptError := []\<rparr>)
         else (None,
               s\<lparr>finalPromptError :=
                   ''Must provide at least one of System Prompt or Task Prompt''\<rparr>))"

text \<open>Yup fails a test whose function returns a falsy value, \<^verbatim>\<open>undefined\<close> included.\<close>

definition yup_test_passes :: "bool option \<Rightarrow> bool" where
  "yup_test_passes r = (case r of None \<Rightarrow> False | Some b \<Rightarrow> b)"

text \<open>The test as the form runs it on the draft.\<close>

definition validate_prompts :: "editor_state \<Rightarrow> bool option \<times> editor_state" where
  "validate_prompts s =
     prompt_test (prepareDataForValidation (system_prompt (draft s)))
       (prepareDataForValidation (task_prompt (draft s))) s"

section \<open>The preview\<close>

text \<open>
  The response of the preview builder (\<^verbatim>\<open>buildFinalPrompt\<close> of \<^verbatim>\<open>./lib\<close>): its
  \<^verbatim>\<open>ok\<close> flag and the \<^verbatim>\<open>final_prompt_template\<close> of its JSON body.
\<close>

record preview_response =
  preview_ok :: bool
  final_prompt_template :: "string option"

definition triggerFinalPromptUpdate ::
  "(string \<Rightarrow> string \<Rightarrow> bool \<Rightarrow> preview_response) \<Rightarrow>
   string \<Rightarrow> string \<Rightarrow> bool \<Rightarrow> editor_state \<Rightarrow> editor_state" where
  "triggerFinalPromptUpdate buildFinalPrompt systemPrompt taskPrompt retrievalDisabled s =
     (let response = buildFinalPrompt systemPrompt taskPrompt retrievalDisabled
      in if preview_ok response
         then s\<lparr>finalPrompt := final_prompt_template response\<rparr>
         else s)"

section \<open>Submission\<close>

text \<open>A response of a persistence call: its \<^verbatim>\<open>ok\<close> flag and its body as text.\<close>

record response =
  ok :: bool
  body :: string

text \<open>
  \<^verbatim>\<open>createPersona\<close> and \<^verbatim>\<open>updatePersona\<close> of \<^verbatim>\<open>./lib\<close> are parameters: each answers
  with the prompt's response and the persona's, which may be \<^verbatim>\<open>null\<close>.
\<close>

record collaborators =
  createPersona :: "form_values \<Rightarrow> response \<times> response option"
  updatePersona :: "int \<Rightarrow> int option \<Rightarrow> form_values \<Rightarrow> response \<times> response option"

text \<open>\<^verbatim>\<open>values.disable_retrieval ? 0 : values.num_chunks || 10\<close>\<close>

definition numChunks :: "form_values \<Rightarrow> js_value" where
  "numChunks v =
     (if disable_retrieval v then JNum (Finite 0)
      else js_or (num_chunks v) (JNum (Finite 10)))"

text \<open>
  The call the handler makes: \<^verbatim>\<open>updatePersona\<close> with the persona's identifier and its
  first prompt's (\<^verbatim>\<open>existingPrompt?.id\<close>) in update mode, \<^verbatim>\<open>createPersona\<close> otherwise;
  both get the values with \<^verbatim>\<open>num_chunks\<close> overwritten by \<^verbatim>\<open>numChunks\<close>.
\<close>

definition submit_call :: "persona option \<Rightarrow> form_values \<Rightarrow> persona_call" where
  "submit_call existingPersona v =
     (case existingPersona of
        Some p \<Rightarrow>
          UpdatePersona (persona_id p) (map_option prompt_id (existingPrompt existingPersona))
            (v\<lparr>num_chunks := numChunks v\<rparr>)
      | None \<Rightarrow> CreatePersona (v\<lparr>num_chunks := numChunks v\<rparr>))"

fun perform :: "collaborators \<Rightarrow> persona_call \<Rightarrow> response \<times> response option" where
  "perform api (CreatePersona w) = createPersona api w"
| "perform api (UpdatePersona i q w) = updatePersona api i q w"

text \<open>The error found in the two responses: the second assignment overwrites the first.\<close>

definition response_error :: "response \<Rightarrow> response option \<Rightarrow> string option" where
  "response_error promptResponse personaResponse =
     (let error = None;
          error = (if \<not> ok promptResponse then Some (body promptResponse) else error);
          error = (case personaResponse of
                     None \<Rightarrow> error
                   | Some r \<Rightarrow> (if \<not> ok r then Some (body r) else error))
      in error)"

text \<open>
  The submit handler. \<^verbatim>\<open>if (error)\<close> is a truthiness test: \<^verbatim>\<open>null\<close> and the empty
  string both take the branch that navigates.
\<close>

definition onSubmit ::
  "collaborators \<Rightarrow> persona option \<Rightarrow> nat \<Rightarrow> editor_state \<Rightarrow> editor_state" where
  "onSubmit api existingPersona now s =
     (if finalPromptError s \<noteq> []
      then s\<lparr>popup := Some \<lparr>popup_type = ''error'',
                 message = ''Cannot submit while there are errors in the form!''\<rparr>\<rparr>
      else
        (let s1 = s\<lparr>isSubmitting := True\<rparr>;
             call = submit_call existingPersona (draft s);
             (promptResponse, personaResponse) = perform api call;
             s2 = s1\<lparr>calls := calls s1 @ [call]\<rparr>
         in case response_error promptResponse personaResponse of
              None \<Rightarrow> s2\<lparr>pushed := Some (AdminPersonas now)\<rparr>
            | Some error \<Rightarrow>
                (if error \<noteq> []
                 then s2\<lparr>popup := Some \<lparr>popup_type = ''error'',
                            message = ''Failed to create Persona - '' @ error\<rparr>,
                          isSubmitting := False\<rparr>
                 else s2\<lparr>pushed := Some (AdminPersonas now)\<rparr>)))"

text \<open>
  The state at mount: the form holds \<^verbatim>\<open>initialValues\<close>, \<^verbatim>\<open>finalPrompt\<close> and
  \<^verbatim>\<open>finalPromptError\<close> are the empty string, nothing is shown or sent.
\<close>

definition mount_state :: "persona option \<Rightarrow> editor_state" where
  "mount_state existingPersona =
     \<lparr> draft = initialValues existingPersona,
       finalPrompt = Some [],
       finalPromptError = [],
       popup = None,
       isSubmitting = False,
       pushed = None,
       calls = [] \<rparr>"

section \<open>The specification's wording\<close>

text \<open>
  The error the specification expects on a failed submission: the first one met, the
  prompt's response being read before the persona's.
\<close>

definition first_error_body :: "response \<Rightarrow> response option \<Rightarrow> string option" where
  "first_error_body promptResponse personaResponse =
     (if \<not> ok promptResponse then Some (body promptResponse)
      else (case personaResponse of
              None \<Rightarrow> None
            | Some r \<Rightarrow> (if \<not> ok r then Some (body r) else None)))"

text \<open>
  The values the specification allows for the chunk count: \<^verbatim>\<open>numChunks\<close> is \<^verbatim>\<open>null\<close> or an integer of the
  closed interval from 0 to 20.
\<close>

fun spec_num_chunks_ok :: "yup_input \<Rightarrow> bool" where
  "spec_num_chunks_ok YNull = True"
| "spec_num_chunks_ok (YNumber (Finite r)) = (of_int \<lfloor>r\<rfloor> = r \<and> 0 \<le> r \<and> r \<le> 20)"
| "spec_num_chunks_ok v = False"

text \<open>
  The blank starter message of the specification: an entry whose three fields are the
  empty string.
\<close>

definition blank_starter_message :: starter_entry where
  "blank_starter_message = EntryObject (Str []) (Str []) (Str [])"

section \<open>Collaborators and states of the examples\<close>

text \<open>Collaborators that answer every call with the same pair of responses.\<close>

definition answering :: "response \<Rightarrow> response option \<Rightarrow> collaborators" where
  "answering r p =
     \<lparr> createPersona = (\<lambda>w. (r, p)), updatePersona = (\<lambda>i q w. (r, p)) \<rparr>"

text \<open>A preview builder that answers every request with the same response.\<close>

definition preview_answering :: "preview_response \<Rightarrow> string \<Rightarrow> string \<Rightarrow> bool \<Rightarrow> preview_response" where
  "preview_answering r systemPrompt taskPrompt retrievalDisabled = r"

text \<open>
  A persona stored with retrieval disabled (\<^verbatim>\<open>num_chunks = 0\<close>), and the editor opened
  on it after the operator has unticked ``Disable Retrieval''.
\<close>

definition stored_persona :: persona where
  "stored_persona =
     \<lparr> persona_id = 7,
       persona_name = ''Support Bot'',
       persona_description = ''helps support'',
       prompts = [\<lparr> prompt_id = 3,
                    prompt_system_prompt = ''You are helpful.'',
                    prompt_task_prompt = [],
                    prompt_include_citations = True \<rparr>],
       persona_num_chunks = Some (Finite 0),
       persona_document_sets = [],
       persona_llm_relevance_filter = False,
       persona_llm_model_version_override = None,
       persona_starter_messages = None \<rparr>"

definition retrieval_reenabled :: editor_state where
  "retrieval_reenabled =
     (mount_state (Some stored_persona))
       \<lparr>draft := (initialValues (Some stored_persona))\<lparr>disable_retrieval := False\<rparr>\<rparr>"

text \<open>The create-mode editor with a system prompt typed in.\<close>

definition new_draft :: editor_state where
  "new_draft =
     (mount_state None)
       \<lparr>draft := (initialValues None)
          \<lparr>name := ''Support Bot'', description := ''helps support'',
           system_prompt := ''You are helpful.''\<rparr>\<rparr>"

section \<open>Facts about arrays\<close>

lemma indexOf_ge: "- 1 \<le> indexOf xs x"
  by (induction xs) (auto simp: Let_def)

lemma indexOf_absent: "(indexOf xs x = - 1) = (x \<notin> set xs)"
proof (induction xs)
  case Nil
  show ?case by simp
next
  case (Cons y ys)
  have "- 1 \<le> indexOf ys x" by (rule indexOf_ge)
  with Cons show ?case by (auto simp: Let_def)
qed

lemma indexOf_append_new: "x \<notin> set xs \<Longrightarrow> indexOf (xs @ [x]) x = int (length xs)"
  by (induction xs) (auto simp: Let_def)

lemma splice1_in_range:
  "0 \<le> i \<Longrightarrow> splice1 i xs = take (nat i) xs @ drop (Suc (nat i)) xs"
  by (cases "i \<le> int (length xs)") (auto simp: splice1_def Let_def min_def)

lemma splice1_last: "splice1 (int (length xs)) (xs @ [x]) = xs"
  by (simp add: splice1_in_range)

lemma indexOf_found: "x \<notin> set xs \<Longrightarrow> indexOf (xs @ x # zs) x = int (length xs)"
  by (induction xs) (auto simp: Let_def)

lemma splice1_found: "splice1 (int (length xs)) (xs @ x # zs) = xs @ zs"
  by (simp add: splice1_in_range)

lemma distinct_splice1:
  assumes "distinct xs"
  shows "distinct (splice1 i xs)"
proof -
  define k where
    "k = nat (if i < 0 then max (int (length xs) + i) 0 else min i (int (length xs)))"
  have "distinct (take k xs @ drop (Suc k) xs)"
    using assms
    by (auto simp: set_take_disj_set_drop_if_distinct dest: in_set_takeD in_set_dropD)
  then show ?thesis by (simp add: splice1_def Let_def k_def)
qed

lemma starter_remove_positional:
  "starter_messages
     (starter_remove_onClick 1
        ((initialValues None)\<lparr>starter_messages := Some [EntryString ''A'', EntryString ''B'',
           EntryString ''C'']\<rparr>))
   = Some [EntryString ''A'', EntryString ''C'']"
  by (simp add: starter_remove_onClick_def arrayHelpers_remove_def splice1_def copyArrayLike_def)

section \<open>Facts about the submit handler\<close>

lemma perform_answering: "perform (answering r p) c = (r, p)"
  by (cases c) (simp_all add: answering_def)

lemma js_or_10:
  "js_or v (JNum (Finite 10)) =
     (if v = JNull \<or> v = JNum (Finite 0) \<or> v = JNum NaN \<or> v = JStr []
      then JNum (Finite 10) else v)"
  by (cases v) (auto simp: js_or_def)

lemma sent_submit_call: "sent (submit_call ep v) = v\<lparr>num_chunks := numChunks v\<rparr>"
  by (simp add: submit_call_def split: option.splits)

lemma onSubmit_calls:
  "finalPromptError s = [] \<Longrightarrow>
   calls (onSubmit api ep now s) = calls s @ [submit_call ep (draft s)]"
  by (simp add: onSubmit_def Let_def split: option.splits prod.splits)

lemma onSubmit_draft: "draft (onSubmit api ep now s) = draft s"
  by (simp add: onSubmit_def Let_def split: option.splits prod.splits)

lemma response_error_cases:
  "response_error pr per =
     (case per of
        None \<Rightarrow> (if ok pr then None else Some (body pr))
      | Some r \<Rightarrow>
          (if \<not> ok r then Some (body r) else if ok pr then None else Some (body pr)))"
  by (simp add: response_error_def split: option.splits)

lemma onSubmit_all_ok:
  assumes "finalPromptError s = []"
    and "perform api (submit_call ep (draft s)) = (pr, per)"
    and "ok pr" and "per = None \<or> (\<exists>r. per = Some r \<and> ok r)"
  shows "onSubmit api ep now s =
    s\<lparr>isSubmitting := True, calls := calls s @ [submit_call ep (draft s)],
      pushed := Some (AdminPersonas now)\<rparr>"
  using assms by (auto simp: onSubmit_def Let_def response_error_cases)

lemma onSubmit_failed:
  assumes "finalPromptError s = []"
    and "perform api (submit_call ep (draft s)) = (pr, per)"
    and "response_error pr per = Some e" and "e \<noteq> []"
  shows "onSubmit api ep now s =
    s\<lparr>isSubmitting := False, calls := calls s @ [submit_call ep (draft s)],
      popup := Some \<lparr>popup_type = ''error'',
                message = ''Failed to create Persona - '' @ e\<rparr>\<rparr>"
  using assms by (simp add: onSubmit_def Let_def)

lemma retrieval_reenabled_simps:
  "finalPromptError retrieval_reenabled = []"
  "disable_retrieval (draft retrieval_reenabled) = False"
  "num_chunks (draft retrieval_reenabled) = JNum (Finite 0)"
  "calls retrieval_reenabled = []"
  by (simp_all add: retrieval_reenabled_def mount_state_def initialValues_def
      stored_persona_def)

lemma new_draft_simps:
  "finalPromptError new_draft = []" "popup new_draft = None" "pushed new_draft = None"
  "calls new_draft = []" "isSubmitting new_draft = False"
  by (simp_all add: new_draft_def mount_state_def)

lemma example_prompts:
  "system_prompt (draft new_draft) = ''You are helpful.''"
  "task_prompt (draft new_draft) = []"
  "system_prompt (draft (mount_state None)) = []"
  "task_prompt (draft (mount_state None)) = []"
  by (simp_all add: new_draft_def mount_state_def initialValues_def existingPrompt_def)

lemma digits_only_iff: "digits_only s = (s \<noteq> [] \<and> set s \<subseteq> set ''0123456789'')"
  unfolding digits_only_def list_all_iff is_digit_def by blast

section \<open>The effective chunk count\<close>

text \<open>
  C1, as the handler computes it. A submission that passes the guard makes exactly one
  collaborator call, and the \<^verbatim>\<open>num_chunks\<close> it sends is \<^verbatim>\<open>0\<close> when
  \<^verbatim>\<open>disable_retrieval\<close> is set; otherwise it is \<^verbatim>\<open>10\<close> when the stored value is falsy
  (\<^verbatim>\<open>null\<close>, the number \<^verbatim>\<open>0\<close>, \<^verbatim>\<open>NaN\<close> or the empty string) and the stored value itself
  in every other case. The stored \<^verbatim>\<open>num_chunks\<close> of the draft is not changed.
\<close>

theorem onSubmit_effective_chunk_count:
  assumes "finalPromptError s = []"
  shows "calls (onSubmit api ep now s) = calls s @ [submit_call ep (draft s)]
    \<and> num_chunks (sent (submit_call ep (draft s))) =
        (if disable_retrieval (draft s) then JNum (Finite 0)
         else if num_chunks (draft s) = JNull \<or> num_chunks (draft s) = JNum (Finite 0)
                 \<or> num_chunks (draft s) = JNum NaN \<or> num_chunks (draft s) = JStr []
              then JNum (Finite 10)
              else num_chunks (draft s))
    \<and> num_chunks (draft (onSubmit api ep now s)) = num_chunks (draft s)"
  using assms
  by (simp add: onSubmit_calls onSubmit_draft sent_submit_call numChunks_def js_or_10)

theorem onSubmit_effective_chunk_count_witness:
  "finalPromptError retrieval_reenabled = []
   \<and> calls (onSubmit (answering \<lparr>ok = True, body = []\<rparr> None) (Some stored_persona) 0
        retrieval_reenabled)
       = [submit_call (Some stored_persona) (draft retrieval_reenabled)]
   \<and> num_chunks (sent (submit_call (Some stored_persona) (draft retrieval_reenabled)))
       = JNum (Finite 10)"
  using onSubmit_effective_chunk_count
    [of retrieval_reenabled "answering \<lparr>ok = True, body = []\<rparr> None" "Some stored_persona" 0]
  by (simp add: retrieval_reenabled_simps)

text \<open>
  C1 as it is worded fails for a stored \<^verbatim>\<open>num_chunks\<close> of \<^verbatim>\<open>0\<close>: the persona was stored
  with \<^verbatim>\<open>num_chunks = 0\<close>, retrieval has been enabled again in the form, the stored value
  is not \<^verbatim>\<open>null\<close>, and the chunk count sent is \<^verbatim>\<open>10\<close>, not \<^verbatim>\<open>0\<close>.
\<close>

theorem onSubmit_zero_chunks_sends_default:
  "\<not> disable_retrieval (draft retrieval_reenabled)
   \<and> num_chunks (draft retrieval_reenabled) \<noteq> JNull
   \<and> map (\<lambda>c. num_chunks (sent c))
        (calls (onSubmit (answering \<lparr>ok = True, body = []\<rparr> None) (Some stored_persona) 0
           retrieval_reenabled))
      = [JNum (Finite 10)]
   \<and> JNum (Finite 10) \<noteq> num_chunks (draft retrieval_reenabled)"
  by (simp add: retrieval_reenabled_simps onSubmit_calls sent_submit_call numChunks_def
      js_or_def)

section \<open>The cross-field rule\<close>

text \<open>
  C2. The test of \<^verbatim>\<open>"system-prompt-or-task-prompt"\<close> passes exactly when the system
  prompt or the task prompt of the draft is non-empty. When both are empty the test
  function returns nothing (\<^verbatim>\<open>undefined\<close>), which Yup counts as a failure. The last
  conjunct is the same fact for the test function alone, on any strings or
  \<^verbatim>\<open>undefined\<close>.
\<close>

theorem prompt_test_valid_iff:
  "yup_test_passes (fst (validate_prompts s)) =
     (0 < length (system_prompt (draft s)) \<or> 0 < length (task_prompt (draft s)))
   \<and> fst (validate_prompts s) =
     (if 0 < length (system_prompt (draft s)) \<or> 0 < length (task_prompt (draft s))
      then Some True else None)
   \<and> yup_test_passes None = False
   \<and> yup_test_passes (fst (prompt_test sp tp s)) =
       ((\<exists>x. sp = Some x \<and> 0 < length x) \<or> (\<exists>y. tp = Some y \<and> 0 < length y))"
  by (auto simp: validate_prompts_def prompt_test_def promptSpecified_def
      prepareDataForValidation_def yup_test_passes_def split: option.splits)

theorem prompt_test_valid_iff_witness:
  "yup_test_passes (fst (validate_prompts new_draft))
   \<and> yup_test_passes (fst (validate_prompts (mount_state None))) = False
   \<and> fst (validate_prompts (mount_state None)) = None"
  using prompt_test_valid_iff [of new_draft None None]
    prompt_test_valid_iff [of "mount_state None" None None]
  by (simp add: example_prompts yup_test_passes_def)

section \<open>A submission blocked by the cross-field error\<close>

text \<open>
  C3. When \<^verbatim>\<open>finalPromptError\<close> is set, the submit handler only shows the error popup
  ``Cannot submit while there are errors in the form!'': it calls no collaborator,
  pushes no route and leaves the draft as it was.
\<close>

theorem onSubmit_blocked_by_prompt_error:
  assumes "finalPromptError s \<noteq> []"
  shows "onSubmit api ep now s =
           s\<lparr>popup := Some \<lparr>popup_type = ''error'',
                message = ''Cannot submit while there are errors in the form!''\<rparr>\<rparr>
       \<and> calls (onSubmit api ep now s) = calls s
       \<and> pushed (onSubmit api ep now s) = pushed s
       \<and> draft (onSubmit api ep now s) = draft s"
  using assms by (simp add: onSubmit_def)

theorem onSubmit_blocked_by_prompt_error_witness:
  "finalPromptError (snd (validate_prompts (mount_state None))) \<noteq> []
   \<and> calls (onSubmit (answering \<lparr>ok = True, body = []\<rparr> None) None 0
        (snd (validate_prompts (mount_state None)))) = []
   \<and> popup (onSubmit (answering \<lparr>ok = True, body = []\<rparr> None) None 0
        (snd (validate_prompts (mount_state None))))
       = Some \<lparr>popup_type = ''error'',
            message = ''Cannot submit while there are errors in the form!''\<rparr>
   \<and> draft (onSubmit (answering \<lparr>ok = True, body = []\<rparr> None) None 0
        (snd (validate_prompts (mount_state None)))) = initialValues None"
proof -
  have e: "finalPromptError (snd (validate_prompts (mount_state None))) \<noteq> []"
    by (simp add: validate_prompts_def prompt_test_def promptSpecified_def
        prepareDataForValidation_def mount_state_def initialValues_def existingPrompt_def)
  have c: "calls (snd (validate_prompts (mount_state None))) = []"
    by (simp add: validate_prompts_def prompt_test_def promptSpecified_def
        prepareDataForValidation_def mount_state_def initialValues_def existingPrompt_def)
  have d: "draft (snd (validate_prompts (mount_state None))) = initialValues None"
    by (simp add: validate_prompts_def prompt_test_def promptSpecified_def
        prepareDataForValidation_def mount_state_def)
  from onSubmit_blocked_by_prompt_error
    [OF e, of "answering \<lparr>ok = True, body = []\<rparr> None" None 0] e c d
  show ?thesis by simp
qed

section \<open>The outcome of the persistence calls\<close>

text \<open>
  C4, as the handler decides it. Let the collaborator answer with the prompt's response
  and the persona's. When the prompt's response is ok and the persona's is absent or ok,
  the handler navigates and shows no message. When the persona's response is present and
  not ok with a non-empty body, that body is the one message shown, whatever the prompt's
  response was; when only the prompt's response is not ok, with a non-empty body, its
  body is the message. In both failing cases no route is pushed and \<^verbatim>\<open>isSubmitting\<close> is
  set back to false. The draft is kept in every case.
\<close>

theorem onSubmit_response_outcome:
  assumes "finalPromptError s = []"
    and "perform api (submit_call ep (draft s)) = (pr, per)"
  shows "(ok pr \<and> (per = None \<or> (\<exists>r. per = Some r \<and> ok r)) \<longrightarrow>
            pushed (onSubmit api ep now s) = Some (AdminPersonas now)
          \<and> popup (onSubmit api ep now s) = popup s)
       \<and> (\<forall>r. per = Some r \<and> \<not> ok r \<and> body r \<noteq> [] \<longrightarrow>
            pushed (onSubmit api ep now s) = pushed s
          \<and> popup (onSubmit api ep now s) =
              Some \<lparr>popup_type = ''error'',
                 message = ''Failed to create Persona - '' @ body r\<rparr>
          \<and> isSubmitting (onSubmit api ep now s) = False)
       \<and> (\<not> ok pr \<and> (per = None \<or> (\<exists>r. per = Some r \<and> ok r)) \<and> body pr \<noteq> [] \<longrightarrow>
            pushed (onSubmit api ep now s) = pushed s
          \<and> popup (onSubmit api ep now s) =
              Some \<lparr>popup_type = ''error'',
                 message = ''Failed to create Persona - '' @ body pr\<rparr>
          \<and> isSubmitting (onSubmit api ep now s) = False)
       \<and> draft (onSubmit api ep now s) = draft s"
proof (intro conjI impI allI)
  assume "ok pr \<and> (per = None \<or> (\<exists>r. per = Some r \<and> ok r))"
  then have *: "onSubmit api ep now s =
    s\<lparr>isSubmitting := True, calls := calls s @ [submit_call ep (draft s)],
      pushed := Some (AdminPersonas now)\<rparr>"
    using onSubmit_all_ok [OF assms] by blast
  show "pushed (onSubmit api ep now s) = Some (AdminPersonas now)" by (simp add: *)
  show "popup (onSubmit api ep now s) = popup s" by (simp add: *)
next
  fix r assume a: "per = Some r \<and> \<not> ok r \<and> body r \<noteq> []"
  then have "response_error pr per = Some (body r)" by (simp add: response_error_cases)
  with a have *: "onSubmit api ep now s =
    s\<lparr>isSubmitting := False, calls := calls s @ [submit_call ep (draft s)],
      popup := Some \<lparr>popup_type = ''error'',
                message = ''Failed to create Persona - '' @ body r\<rparr>\<rparr>"
    using onSubmit_failed [OF assms] by blast
  show "pushed (onSubmit api ep now s) = pushed s" by (simp add: *)
  show "popup (onSubmit api ep now s) =
     Some \<lparr>popup_type = ''error'', message = ''Failed to create Persona - '' @ body r\<rparr>"
    by (simp add: *)
  show "isSubmitting (onSubmit api ep now s) = False" by (simp add: *)
next
  assume a: "\<not> ok pr \<and> (per = None \<or> (\<exists>r. per = Some r \<and> ok r)) \<and> body pr \<noteq> []"
  then have "response_error pr per = Some (body pr)" by (auto simp: response_error_cases)
  with a have *: "onSubmit api ep now s =
    s\<lparr>isSubmitting := False, calls := calls s @ [submit_call ep (draft s)],
      popup := Some \<lparr>popup_type = ''error'',
                message = ''Failed to create Persona - '' @ body pr\<rparr>\<rparr>"
    using onSubmit_failed [OF assms] by blast
  show "pushed (onSubmit api ep now s) = pushed s" by (simp add: *)
  show "popup (onSubmit api ep now s) =
     Some \<lparr>popup_type = ''error'', message = ''Failed to create Persona - '' @ body pr\<rparr>"
    by (simp add: *)
  show "isSubmitting (onSubmit api ep now s) = False" by (simp add: *)
next
  show "draft (onSubmit api ep now s) = draft s" by (rule onSubmit_draft)
qed

theorem onSubmit_response_outcome_witness:
  "finalPromptError new_draft = []
   \<and> perform (answering \<lparr>ok = True, body = []\<rparr> (Some \<lparr>ok = True, body = []\<rparr>))
        (submit_call None (draft new_draft))
       = (\<lparr>ok = True, body = []\<rparr>, Some \<lparr>ok = True, body = []\<rparr>)
   \<and> pushed (onSubmit (answering \<lparr>ok = True, body = []\<rparr> (Some \<lparr>ok = True, body = []\<rparr>))
        None 5 new_draft) = Some (AdminPersonas 5)
   \<and> perform (answering \<lparr>ok = False, body = ''name taken''\<rparr> None)
        (submit_call None (draft new_draft))
       = (\<lparr>ok = False, body = ''name taken''\<rparr>, None)
   \<and> pushed (onSubmit (answering \<lparr>ok = False, body = ''name taken''\<rparr> None)
        None 5 new_draft) = None
   \<and> popup (onSubmit (answering \<lparr>ok = False, body = ''name taken''\<rparr> None)
        None 5 new_draft)
       = Some \<lparr>popup_type = ''error'', message = ''Failed to create Persona - name taken''\<rparr>
   \<and> isSubmitting (onSubmit (answering \<lparr>ok = False, body = ''name taken''\<rparr> None)
        None 5 new_draft) = False"
  using onSubmit_response_outcome
    [of new_draft "answering \<lparr>ok = True, body = []\<rparr> (Some \<lparr>ok = True, body = []\<rparr>)" None
        "\<lparr>ok = True, body = []\<rparr>" "Some \<lparr>ok = True, body = []\<rparr>" 5]
    onSubmit_response_outcome
    [of new_draft "answering \<lparr>ok = False, body = ''name taken''\<rparr> None" None
        "\<lparr>ok = False, body = ''name taken''\<rparr>" None 5]
  by (simp add: new_draft_simps perform_answering)

text \<open>
  C4 as it is worded fails when both responses are not ok: the first error met is the
  prompt's, and the message shown carries the persona's.
\<close>

theorem onSubmit_surfaces_last_error:
  "first_error_body \<lparr>ok = False, body = ''prompt failed''\<rparr>
       (Some \<lparr>ok = False, body = ''persona failed''\<rparr>)
     = Some ''prompt failed''
   \<and> popup (onSubmit (answering \<lparr>ok = False, body = ''prompt failed''\<rparr>
                (Some \<lparr>ok = False, body = ''persona failed''\<rparr>)) None 0 new_draft)
     = Some \<lparr>popup_type = ''error'',
          message = ''Failed to create Persona - persona failed''\<rparr>
   \<and> popup (onSubmit (answering \<lparr>ok = False, body = ''prompt failed''\<rparr>
                (Some \<lparr>ok = False, body = ''persona failed''\<rparr>)) None 0 new_draft)
     \<noteq> Some \<lparr>popup_type = ''error'',
          message = ''Failed to create Persona - prompt failed''\<rparr>"
  by (simp add: first_error_body_def onSubmit_def Let_def perform_answering new_draft_simps
      response_error_def)

text \<open>
  A failing response whose body is empty: the handler's \<^verbatim>\<open>if (error)\<close> reads the empty
  string as no error, so it navigates and shows nothing.
\<close>

lemma onSubmit_empty_error_body_navigates:
  "\<not> ok \<lparr>ok = False, body = []\<rparr>
   \<and> pushed (onSubmit (answering \<lparr>ok = False, body = []\<rparr> None) None 5 new_draft)
       = Some (AdminPersonas 5)
   \<and> popup (onSubmit (answering \<lparr>ok = False, body = []\<rparr> None) None 5 new_draft) = None"
  by (simp add: onSubmit_def Let_def perform_answering new_draft_simps response_error_def)

section \<open>Preview requests\<close>

text \<open>
  C5. A preview request whose response is ok replaces \<^verbatim>\<open>finalPrompt\<close> by the returned
  template and changes nothing else; a non-empty template is what is rendered. A request
  whose response is not ok leaves the whole state, the preview and the popup included, as
  it was.
\<close>

theorem triggerFinalPromptUpdate_ok_or_unchanged:
  "(preview_ok (buildFinalPrompt systemPrompt taskPrompt retrievalDisabled) \<longrightarrow>
      triggerFinalPromptUpdate buildFinalPrompt systemPrompt taskPrompt retrievalDisabled s
        = s\<lparr>finalPrompt :=
              final_prompt_template (buildFinalPrompt systemPrompt taskPrompt retrievalDisabled)\<rparr>
    \<and> finalPrompt
        (triggerFinalPromptUpdate buildFinalPrompt systemPrompt taskPrompt retrievalDisabled s)
        = final_prompt_template (buildFinalPrompt systemPrompt taskPrompt retrievalDisabled)
    \<and> (\<forall>t. final_prompt_template (buildFinalPrompt systemPrompt taskPrompt retrievalDisabled)
              = Some t \<and> t \<noteq> [] \<longrightarrow>
          rendered_final_prompt
            (triggerFinalPromptUpdate buildFinalPrompt systemPrompt taskPrompt
               retrievalDisabled s) = t))
   \<and> (\<not> preview_ok (buildFinalPrompt systemPrompt taskPrompt retrievalDisabled) \<longrightarrow>
      triggerFinalPromptUpdate buildFinalPrompt systemPrompt taskPrompt retrievalDisabled s = s)"
  by (simp add: triggerFinalPromptUpdate_def Let_def rendered_final_prompt_def)

theorem triggerFinalPromptUpdate_ok_or_unchanged_witness:
  "preview_ok (preview_answering \<lparr>preview_ok = True, final_prompt_template = Some ''X''\<rparr>
      ''a'' ''b'' False)
   \<and> finalPrompt (triggerFinalPromptUpdate
        (preview_answering \<lparr>preview_ok = True, final_prompt_template = Some ''X''\<rparr>)
        ''a'' ''b'' False (mount_state None)) = Some ''X''
   \<and> \<not> preview_ok (preview_answering \<lparr>preview_ok = False, final_prompt_template = None\<rparr>
      ''a'' ''c'' False)
   \<and> finalPrompt (triggerFinalPromptUpdate
        (preview_answering \<lparr>preview_ok = False, final_prompt_template = None\<rparr>)
        ''a'' ''c'' False
        (triggerFinalPromptUpdate
          (preview_answering \<lparr>preview_ok = True, final_prompt_template = Some ''X''\<rparr>)
          ''a'' ''b'' False (mount_state None))) = Some ''X''"
  using triggerFinalPromptUpdate_ok_or_unchanged
      [of "preview_answering \<lparr>preview_ok = True, final_prompt_template = Some ''X''\<rparr>"
          "''a''" "''b''" False "mount_state None"]
    triggerFinalPromptUpdate_ok_or_unchanged
      [of "preview_answering \<lparr>preview_ok = False, final_prompt_template = None\<rparr>"
          "''a''" "''c''" False
          "triggerFinalPromptUpdate
             (preview_answering \<lparr>preview_ok = True, final_prompt_template = Some ''X''\<rparr>)
             ''a'' ''b'' False (mount_state None)"]
  by (simp add: preview_answering_def)

section \<open>The schema of the chunk count\<close>

text \<open>
  C6, as the schema decides it. The per-field rule accepts \<^verbatim>\<open>null\<close> (and an absent
  value), and accepts a number exactly when it is at most 20: there is no lower bound
  and no test for an integer.
\<close>

theorem num_chunks_schema_accepts:
  "num_chunks_schema v =
     (v = YUndefined \<or> v = YNull \<or> v = YNumber NegInfinity
      \<or> (\<exists>r. v = YNumber (Finite r) \<and> r \<le> 20))"
proof (cases v)
  case (YNumber n)
  then show ?thesis by (cases n) auto
qed auto

text \<open>
  C6 as it is worded fails at \<^verbatim>\<open>-1\<close> and at \<^verbatim>\<open>3.5\<close>: the schema accepts both, and
  neither is an integer between 0 and 20.
\<close>

theorem num_chunks_schema_accepts_negative:
  "num_chunks_schema (YNumber (Finite (- 1)))
   \<and> \<not> spec_num_chunks_ok (YNumber (Finite (- 1)))
   \<and> num_chunks_schema (YNumber (Finite (7 / 2)))
   \<and> \<not> spec_num_chunks_ok (YNumber (Finite (7 / 2)))"
proof -
  have "\<lfloor>7 / 2 :: rat\<rfloor> = 3" by (simp add: floor_eq_iff)
  then show ?thesis by simp
qed

section \<open>Toggling a document set\<close>

text \<open>
  C7. For an identifier that is not in \<^verbatim>\<open>document_set_ids\<close>: a click on its chip
  appends the identifier at the end of the collection and changes nothing else; a click
  on the chip of an identifier that is in the collection removes it at the place where
  it is first found (whatever follows it) and keeps the order of the others; so clicking
  the chip twice gives back the values the form had, the collection in its former order.
\<close>

theorem document_set_toggle_twice:
  assumes "d \<notin> set (document_set_ids v)"
  shows "document_set_onClick d v = v\<lparr>document_set_ids := document_set_ids v @ [d]\<rparr>
    \<and> document_set_ids (document_set_onClick d v) = document_set_ids v @ [d]
    \<and> (\<forall>zs. document_set_onClick d (v\<lparr>document_set_ids := document_set_ids v @ d # zs\<rparr>)
           = v\<lparr>document_set_ids := document_set_ids v @ zs\<rparr>)
    \<and> document_set_onClick d (document_set_onClick d v) = v"
proof -
  let ?xs = "document_set_ids v"
  from assms have absent: "indexOf ?xs d = - 1" by (simp add: indexOf_absent)
  then have first: "document_set_onClick d v = v\<lparr>document_set_ids := ?xs @ [d]\<rparr>"
    by (simp add: document_set_onClick_def arrayHelpers_push_def)
  have removal: "document_set_onClick d (v\<lparr>document_set_ids := ?xs @ d # zs\<rparr>)
        = v\<lparr>document_set_ids := ?xs @ zs\<rparr>" for zs
  proof -
    from assms have ind: "indexOf (?xs @ d # zs) d = int (length ?xs)"
      by (rule indexOf_found)
    show ?thesis
      by (simp add: document_set_onClick_def Let_def ind arrayHelpers_remove_def
          splice1_found)
  qed
  from removal [of "[]"] first
  have twice: "document_set_onClick d (document_set_onClick d v) = v" by simp
  from first have ids: "document_set_ids (document_set_onClick d v) = ?xs @ [d]" by simp
  from first ids removal twice show ?thesis by blast
qed

theorem document_set_toggle_twice_witness:
  "2 \<notin> set (document_set_ids ((initialValues None)\<lparr>document_set_ids := [3, 1]\<rparr>))
   \<and> document_set_ids
        (document_set_onClick 2 ((initialValues None)\<lparr>document_set_ids := [3, 1]\<rparr>))
       = [3, 1, 2]
   \<and> document_set_onClick 2 ((initialValues None)\<lparr>document_set_ids := [3, 1, 2, 5]\<rparr>)
       = (initialValues None)\<lparr>document_set_ids := [3, 1, 5]\<rparr>
   \<and> document_set_onClick 2
        (document_set_onClick 2 ((initialValues None)\<lparr>document_set_ids := [3, 1]\<rparr>))
       = (initialValues None)\<lparr>document_set_ids := [3, 1]\<rparr>"
proof -
  let ?v = "(initialValues None)\<lparr>document_set_ids := [3, 1]\<rparr>"
  have a: "2 \<notin> set (document_set_ids ?v)"
    by simp
  note t = document_set_toggle_twice [OF a]
  from t have b: "document_set_ids (document_set_onClick 2 ?v) = [3, 1, 2]"
    by simp
  from t have "document_set_onClick 2 (?v\<lparr>document_set_ids := document_set_ids ?v @ 2 # [5]\<rparr>)
       = ?v\<lparr>document_set_ids := document_set_ids ?v @ [5]\<rparr>"
    by blast
  then have c: "document_set_onClick 2 ((initialValues None)\<lparr>document_set_ids := [3, 1, 2, 5]\<rparr>)
       = (initialValues None)\<lparr>document_set_ids := [3, 1, 5]\<rparr>"
    by simp
  from t have d: "document_set_onClick 2 (document_set_onClick 2 ?v) = ?v"
    by blast
  from a b c d show ?thesis by blast
qed

text \<open>
  C8. When \<^verbatim>\<open>document_set_ids\<close> holds no identifier twice, it holds none twice after a
  click on any chip, whether the click adds the identifier or removes it.
\<close>

theorem document_set_toggle_distinct:
  assumes "distinct (document_set_ids v)"
  shows "distinct (document_set_ids (document_set_onClick d v))"
proof (cases "indexOf (document_set_ids v) d = - 1")
  case True
  then have "d \<notin> set (document_set_ids v)" by (simp add: indexOf_absent)
  with assms True show ?thesis
    by (simp add: document_set_onClick_def arrayHelpers_push_def)
next
  case False
  with assms show ?thesis
    by (simp add: document_set_onClick_def Let_def arrayHelpers_remove_def distinct_splice1)
qed

theorem document_set_toggle_distinct_witness:
  "distinct (document_set_ids ((initialValues None)\<lparr>document_set_ids := [3, 1, 2]\<rparr>))
   \<and> distinct (document_set_ids
        (document_set_onClick 1 ((initialValues None)\<lparr>document_set_ids := [3, 1, 2]\<rparr>)))
   \<and> document_set_ids
        (document_set_onClick 1 ((initialValues None)\<lparr>document_set_ids := [3, 1, 2]\<rparr>))
       = [3, 2]
   \<and> distinct (document_set_ids
        (document_set_onClick 5 ((initialValues None)\<lparr>document_set_ids := [3, 1, 2]\<rparr>)))"
proof -
  have a: "distinct (document_set_ids ((initialValues None)\<lparr>document_set_ids := [3, 1, 2]\<rparr>))"
    by simp
  have b: "document_set_ids
        (document_set_onClick 1 ((initialValues None)\<lparr>document_set_ids := [3, 1, 2]\<rparr>))
       = [3, 2]"
    by (simp add: document_set_onClick_def arrayHelpers_remove_def splice1_def)
  from a b document_set_toggle_distinct [OF a, of 1] document_set_toggle_distinct [OF a, of 5]
  show ?thesis by blast
qed

section \<open>Adding a starter message\<close>

text \<open>
  C9, as the button does it. ``Add New'' appends the empty string at the end of
  \<^verbatim>\<open>starter_messages\<close> (a \<^verbatim>\<open>null\<close> collection counting as empty) and changes no other
  field. The new entry is a string: its \<^verbatim>\<open>name\<close>, \<^verbatim>\<open>description\<close> and \<^verbatim>\<open>message\<close> are
  \<^verbatim>\<open>undefined\<close>.
\<close>

theorem add_new_appends_empty_string:
  "starter_messages (add_new_onClick v) =
     Some ((case starter_messages v of None \<Rightarrow> [] | Some xs \<Rightarrow> xs) @ [EntryString []])
   \<and> add_new_onClick v = v\<lparr>starter_messages := starter_messages (add_new_onClick v)\<rparr>
   \<and> entry_name (EntryString []) = Undefined
   \<and> entry_description (EntryString []) = Undefined
   \<and> entry_message (EntryString []) = Undefined"
  by (simp add: add_new_onClick_def arrayHelpers_push_def copyArrayLike_def)

text \<open>
  C9 as it is worded fails on the first click in create mode: the entry appended is not
  the object with three empty strings, and its \<^verbatim>\<open>name\<close> is not the empty string.
\<close>

theorem add_new_entry_is_not_blank_object:
  "starter_messages (add_new_onClick (initialValues None)) = Some [EntryString []]
   \<and> EntryString [] \<noteq> blank_starter_message
   \<and> entry_name (EntryString []) \<noteq> Str []"
  by (simp add: add_new_onClick_def arrayHelpers_push_def copyArrayLike_def initialValues_def
      blank_starter_message_def)

section \<open>Typing a chunk count\<close>

text \<open>
  C10. The change handler stores the typed text when it is empty or made of the digits
  0 to 9 only, and leaves the form's values as they were for any other text. So whenever
  the stored \<^verbatim>\<open>num_chunks\<close> changes, the new value is the typed text and holds digits
  only: no minus sign and no decimal point.
\<close>

theorem num_chunks_onChange_digits_only:
  "(val = [] \<or> (val \<noteq> [] \<and> set val \<subseteq> set ''0123456789'') \<longrightarrow>
      num_chunks_onChange val v = v\<lparr>num_chunks := JStr val\<rparr>)
   \<and> (\<not> (val = [] \<or> (val \<noteq> [] \<and> set val \<subseteq> set ''0123456789'')) \<longrightarrow>
      num_chunks_onChange val v = v)
   \<and> (num_chunks (num_chunks_onChange val v) \<noteq> num_chunks v \<longrightarrow>
      num_chunks (num_chunks_onChange val v) = JStr val
      \<and> set val \<subseteq> set ''0123456789'' \<and> CHR ''-'' \<notin> set val \<and> CHR ''.'' \<notin> set val)"
proof (intro conjI impI)
  assume "val = [] \<or> (val \<noteq> [] \<and> set val \<subseteq> set ''0123456789'')"
  then have "val = [] \<or> digits_only val"
    unfolding digits_only_iff by blast
  then show "num_chunks_onChange val v = v\<lparr>num_chunks := JStr val\<rparr>"
    by (simp add: num_chunks_onChange_def)
next
  assume "\<not> (val = [] \<or> (val \<noteq> [] \<and> set val \<subseteq> set ''0123456789''))"
  then have "\<not> (val = [] \<or> digits_only val)"
    unfolding digits_only_iff by blast
  then show "num_chunks_onChange val v = v"
    by (simp add: num_chunks_onChange_def)
next
  assume ch: "num_chunks (num_chunks_onChange val v) \<noteq> num_chunks v"
  then have stored: "val = [] \<or> digits_only val"
    by (auto simp: num_chunks_onChange_def split: if_splits)
  then show "num_chunks (num_chunks_onChange val v) = JStr val"
    by (simp add: num_chunks_onChange_def)
  from stored have "val = [] \<or> (val \<noteq> [] \<and> set val \<subseteq> set ''0123456789'')"
    unfolding digits_only_iff .
  then show sub: "set val \<subseteq> set ''0123456789''"
    by (elim disjE conjE) simp_all
  have "CHR ''-'' \<notin> set ''0123456789''" by simp
  with sub show "CHR ''-'' \<notin> set val" by blast
  have "CHR ''.'' \<notin> set ''0123456789''" by simp
  with sub show "CHR ''.'' \<notin> set val" by blast
qed

theorem num_chunks_onChange_digits_only_witness:
  "num_chunks_onChange ''15'' (initialValues None)
     = (initialValues None)\<lparr>num_chunks := JStr ''15''\<rparr>
   \<and> num_chunks_onChange ''-5'' (initialValues None) = initialValues None
   \<and> num_chunks_onChange ''1.5'' (initialValues None) = initialValues None"
proof -
  have a: "set ''15'' \<subseteq> set ''0123456789''" by simp
  have b: "\<not> set ''-5'' \<subseteq> set ''0123456789''" by simp
  have c: "\<not> set ''1.5'' \<subseteq> set ''0123456789''" by simp
  have "num_chunks_onChange ''15'' (initialValues None)
          = (initialValues None)\<lparr>num_chunks := JStr ''15''\<rparr>"
    using num_chunks_onChange_digits_only [of "''15''" "initialValues None"] a by blast
  moreover have "num_chunks_onChange ''-5'' (initialValues None) = initialValues None"
    using num_chunks_onChange_digits_only [of "''-5''" "initialValues None"] b by blast
  moreover have "num_chunks_onChange ''1.5'' (initialValues None) = initialValues None"
    using num_chunks_onChange_digits_only [of "''1.5''" "initialValues None"] c by blast
  ultimately show ?thesis by blast
qed

end
